theory Spec2Isabelle
  imports Main "HOL-Library.Word"
begin

section \<open>Wait conditions of klient/wait/conditions/conditions.go\<close>

text \<open>
  The file builds polling predicates (\<open>ConditionFunc\<close>, a \<open>func() (done bool, err error)\<close>)
  over a Kubernetes object. Every predicate logs one line when the builder is verbose,
  fetches the object through \<open>c.resources.Get\<close>, which overwrites the struct the caller's
  pointer refers to, and then inspects the fetched state.

  The embedding passes the state explicitly. One call of a predicate takes the object as
  the caller holds it (nil, or a pointer together with the current value of the struct
  behind it) and gives back a \<open>Poll\<close>: how the call ended, the object afterwards, and the
  calls made to \<open>log.Printf\<close>.
\<close>

subsection \<open>Objects\<close>

text \<open>
  \<open>v1.PodConditionType\<close>, \<open>batchv1.JobConditionType\<close>, \<open>v1.ConditionStatus\<close> and
  \<open>v1.PodPhase\<close> are Go string types.
\<close>

type_synonym PodConditionType = string
type_synonym JobConditionType = string
type_synonym ConditionStatus = string
type_synonym PodPhase = string

record ObjectMeta =
  Name :: string
  Namespace :: string

record PodCondition =
  pc_Type :: PodConditionType
  pc_Status :: ConditionStatus
  pc_Reason :: string

record PodStatus =
  Phase :: PodPhase
  ps_Conditions :: "PodCondition list"

record Pod =
  pod_Meta :: ObjectMeta
  pod_Status :: PodStatus

record JobCondition =
  jc_Type :: JobConditionType
  jc_Status :: ConditionStatus
  jc_Reason :: string

record JobStatus =
  js_Conditions :: "JobCondition list"

record Job =
  job_Meta :: ObjectMeta
  job_Status :: JobStatus

text \<open>
  \<open>k8s.Object\<close> is an interface; a non-nil value of it is a pointer to a struct of some
  concrete kind. \<open>'a Object\<close> is the struct behind such a pointer, tagged with its kind.
  The two kinds the file asserts on are \<open>*v1.Pod\<close> and \<open>*batchv1.Job\<close>; every other kind
  (Deployment, StatefulSet, ...) is an \<open>OtherObject\<close> with its metadata and a body of an
  arbitrary type \<open>'a\<close>.
\<close>

datatype 'a Object =
    PodObject Pod
  | JobObject Job
  | OtherObject ObjectMeta 'a

fun GetName :: "'a Object \<Rightarrow> string" where
  "GetName (PodObject p) = Name (pod_Meta p)"
| "GetName (JobObject j) = Name (job_Meta j)"
| "GetName (OtherObject m b) = Name m"

fun GetNamespace :: "'a Object \<Rightarrow> string" where
  "GetNamespace (PodObject p) = Namespace (pod_Meta p)"
| "GetNamespace (JobObject j) = Namespace (job_Meta j)"
| "GetNamespace (OtherObject m b) = Namespace m"

text \<open>
  The type assertions \<open>obj.(*v1.Pod)\<close> and \<open>obj.(*batchv1.Job)\<close>: \<open>None\<close> is the
  run-time panic of a failed single-value assertion.
\<close>

fun assertPod :: "'a Object \<Rightarrow> Pod option" where
  "assertPod (PodObject p) = Some p"
| "assertPod (JobObject j) = None"
| "assertPod (OtherObject m b) = None"

fun assertJob :: "'a Object \<Rightarrow> Job option" where
  "assertJob (PodObject p) = None"
| "assertJob (JobObject j) = Some j"
| "assertJob (OtherObject m b) = None"

text \<open>
  What a caller can pass as a \<open>k8s.Object\<close>: the nil interface value, a nil pointer of
  some kind (a typed nil, whose dynamic type is that kind), or a pointer to a struct.
\<close>

datatype Kind = PodKind | JobKind | OtherKind

datatype 'a Handle =
    NilInterface
  | NilPointer Kind
  | Pointer "'a Object"


text \<open>
  Every predicate starts by calling \<open>obj.GetNamespace()\<close> and \<open>obj.GetName()\<close>: they are
  arguments of \<open>c.log\<close>, and Go evaluates them before the call, whether or not the builder
  is verbose. The methods are promoted from the \<open>ObjectMeta\<close> that every kind of the
  Kubernetes API embeds by value, so the call dereferences the receiver. \<open>deref\<close> is that
  dereference: \<open>None\<close> is the nil-pointer panic, on the nil interface and on a typed nil
  alike.
\<close>

fun deref :: "'a Handle \<Rightarrow> 'a Object option" where
  "deref NilInterface = None"
| "deref (NilPointer k) = None"
| "deref (Pointer obj) = Some obj"

text \<open>The constants of \<open>k8s.io/api\<close> that the derived helpers pass on.\<close>

definition PodReadyType :: PodConditionType where
  "PodReadyType = ''Ready''"

definition ContainersReadyType :: PodConditionType where
  "ContainersReadyType = ''ContainersReady''"

definition ConditionTrue :: ConditionStatus where
  "ConditionTrue = ''True''"

definition PodRunningPhase :: PodPhase where
  "PodRunningPhase = ''Running''"

definition JobComplete :: JobConditionType where
  "JobComplete = ''Complete''"

definition JobFailedType :: JobConditionType where
  "JobFailedType = ''Failed''"

subsection \<open>Errors\<close>

text \<open>
  An error is either an API status error, which carries a reason, or any other error.
  The doc comment of \<open>ResourceDeleted\<close> says it waits for a \<open>v1.StatusReasonNotFound\<close>
  error from the API.
\<close>

datatype StatusReason = StatusReasonNotFound | StatusReasonOther string

datatype error = StatusError StatusReason string | PlainError string

text \<open>
  Modelled from the spec: \<open>errors.IsNotFound\<close> of \<open>k8s.io/apimachinery\<close> is not in the
  source tree; a not-found error is a fetch outcome saying that the resource no longer
  exists.
\<close>

fun IsNotFound :: "error \<Rightarrow> bool" where
  "IsNotFound (StatusError r msg) = (r = StatusReasonNotFound)"
| "IsNotFound (PlainError msg) = False"

subsection \<open>The resource accessor\<close>

text \<open>
  \<open>resources.Resources\<close> and its method \<open>Get(ctx, name, namespace, obj) error\<close> live in
  another package; they are a parameter here. \<open>Get\<close> writes the fetched state into the
  struct that \<open>obj\<close> points to and returns an error or nil. It cannot change the dynamic
  type of the caller's interface value, so the accessor answers per kind: given the name,
  the namespace and the current struct, it gives the error (if any) and the struct as it
  is after the call.
\<close>

record 'a Resources =
  GetPod :: "string \<Rightarrow> string \<Rightarrow> Pod \<Rightarrow> error option \<times> Pod"
  GetJob :: "string \<Rightarrow> string \<Rightarrow> Job \<Rightarrow> error option \<times> Job"
  GetOther :: "string \<Rightarrow> string \<Rightarrow> ObjectMeta \<times> 'a \<Rightarrow> error option \<times> ObjectMeta \<times> 'a"

fun Get :: "'a Resources \<Rightarrow> string \<Rightarrow> string \<Rightarrow> 'a Object \<Rightarrow> error option \<times> 'a Object" where
  "Get r name ns (PodObject p) =
     (case GetPod r name ns p of (e, p') \<Rightarrow> (e, PodObject p'))"
| "Get r name ns (JobObject j) =
     (case GetJob r name ns j of (e, j') \<Rightarrow> (e, JobObject j'))"
| "Get r name ns (OtherObject m b) =
     (case GetOther r name ns (m, b) of (e, m', b') \<Rightarrow> (e, OtherObject m' b'))"

subsection \<open>The condition builder\<close>

record 'a Condition =
  resources :: "'a Resources"
  verbose :: bool

definition New :: "'a Resources \<Rightarrow> 'a Condition" where
  "New r = \<lparr>resources = r, verbose = False\<rparr>"

definition WithVerboseLog :: "'a Condition \<Rightarrow> 'a Condition" where
  "WithVerboseLog c = c\<lparr>verbose := True\<rparr>"

text \<open>
  A call of \<open>log.Printf\<close> is recorded as its format string and its arguments; \<open>c.log\<close>
  makes the call only when the builder is verbose.
\<close>

datatype LogArg = ArgString string | ArgInt32 "32 word"

type_synonym LogCall = "string \<times> LogArg list"

definition log :: "'a Condition \<Rightarrow> string \<Rightarrow> LogArg list \<Rightarrow> LogCall list" where
  "log c message args = (if verbose c then [(message, args)] else [])"

subsection \<open>Predicates\<close>

text \<open>
  A call of a predicate either returns \<open>(done, err)\<close>, with \<open>None\<close> for a nil error,
  or panics. A call that panics at the first dereference has logged nothing and fetched
  nothing.
\<close>

datatype Outcome = Returned bool "error option" | Panicked

record 'a Poll =
  outcome :: Outcome
  target :: "'a Handle"
  logged :: "LogCall list"

type_synonym 'a ConditionFunc = "'a Handle \<Rightarrow> 'a Poll"

definition nilDereference :: "'a Handle \<Rightarrow> 'a Poll" where
  "nilDereference h = \<lparr>outcome = Panicked, target = h, logged = []\<rparr>"

text \<open>\<open>scaleFetcher\<close> is the caller's function from the object to an \<open>int32\<close>.\<close>

definition ResourceScaled ::
  "'a Condition \<Rightarrow> ('a Object \<Rightarrow> 32 word) \<Rightarrow> 32 word \<Rightarrow> 'a ConditionFunc" where
  "ResourceScaled c scaleFetcher replica obj0 =
     (case deref obj0 of
        None \<Rightarrow> nilDereference obj0
      | Some obj \<Rightarrow>
        (let out = log c ''Checking if the resource %s/%s has been scaled to %d''
                     [ArgString (GetNamespace obj), ArgString (GetName obj), ArgInt32 replica]
         in case Get (resources c) (GetName obj) (GetNamespace obj) obj of
              (Some err, obj') \<Rightarrow>
                \<lparr>outcome = Returned False None, target = Pointer obj', logged = out\<rparr>
            | (None, obj') \<Rightarrow>
                \<lparr>outcome = Returned (scaleFetcher obj' = replica) None,
                 target = Pointer obj', logged = out\<rparr>))"

definition ResourceDeleted :: "'a Condition \<Rightarrow> 'a ConditionFunc" where
  "ResourceDeleted c obj0 =
     (case deref obj0 of
        None \<Rightarrow> nilDereference obj0
      | Some obj \<Rightarrow>
        (let out = log c ''Checking for Resource deletion of %s/%s''
                     [ArgString (GetNamespace obj), ArgString (GetName obj)]
         in case Get (resources c) (GetName obj) (GetNamespace obj) obj of
              (Some err, obj') \<Rightarrow>
                (if IsNotFound err
                 then \<lparr>outcome = Returned True None, target = Pointer obj', logged = out\<rparr>
                 else \<lparr>outcome = Returned False (Some err), target = Pointer obj', logged = out\<rparr>)
            | (None, obj') \<Rightarrow>
                \<lparr>outcome = Returned False None, target = Pointer obj', logged = out\<rparr>))"

text \<open>
  The loop \<open>for _, cond := range ...Status.Conditions\<close> of \<open>JobConditionMatch\<close>, with the
  named result \<open>done\<close> as the accumulator: it is set to true at a matching entry and
  never reset.
\<close>

fun jobConditionLoop ::
  "JobConditionType \<Rightarrow> ConditionStatus \<Rightarrow> JobCondition list \<Rightarrow> bool \<Rightarrow> bool" where
  "jobConditionLoop conditionType conditionState [] done = done"
| "jobConditionLoop conditionType conditionState (cond # rest) done =
     jobConditionLoop conditionType conditionState rest
       (if jc_Type cond = conditionType \<and> jc_Status cond = conditionState
        then True else done)"

definition JobConditionMatch ::
  "'a Condition \<Rightarrow> JobConditionType \<Rightarrow> ConditionStatus \<Rightarrow> 'a ConditionFunc" where
  "JobConditionMatch c conditionType conditionState job0 =
     (case deref job0 of
        None \<Rightarrow> nilDereference job0
      | Some job \<Rightarrow>
        (let out = log c ''Checking for Job Condition %s/%s on %s/%s''
                     [ArgString conditionType, ArgString conditionState,
                      ArgString (GetNamespace job), ArgString (GetName job)]
         in case Get (resources c) (GetName job) (GetNamespace job) job of
              (Some err, job') \<Rightarrow>
                \<lparr>outcome = Returned False (Some err), target = Pointer job', logged = out\<rparr>
            | (None, job') \<Rightarrow>
                (case assertJob job' of
                   None \<Rightarrow> \<lparr>outcome = Panicked, target = Pointer job', logged = out\<rparr>
                 | Some j \<Rightarrow>
                     \<lparr>outcome = Returned (jobConditionLoop conditionType conditionState
                                            (js_Conditions (job_Status j)) False) None,
                      target = Pointer job', logged = out\<rparr>)))"

text \<open>The same loop of \<open>PodConditionMatch\<close>, over pod conditions.\<close>

fun podConditionLoop ::
  "PodConditionType \<Rightarrow> ConditionStatus \<Rightarrow> PodCondition list \<Rightarrow> bool \<Rightarrow> bool" where
  "podConditionLoop conditionType conditionState [] done = done"
| "podConditionLoop conditionType conditionState (cond # rest) done =
     podConditionLoop conditionType conditionState rest
       (if pc_Type cond = conditionType \<and> pc_Status cond = conditionState
        then True else done)"

definition PodConditionMatch ::
  "'a Condition \<Rightarrow> PodConditionType \<Rightarrow> ConditionStatus \<Rightarrow> 'a ConditionFunc" where
  "PodConditionMatch c conditionType conditionState pod0 =
     (case deref pod0 of
        None \<Rightarrow> nilDereference pod0
      | Some pod \<Rightarrow>
        (let out = log c ''Checking for Pod Condition %s/%s on %s/%s''
                     [ArgString conditionType, ArgString conditionState,
                      ArgString (GetNamespace pod), ArgString (GetName pod)]
         in case Get (resources c) (GetName pod) (GetNamespace pod) pod of
              (Some err, pod') \<Rightarrow>
                \<lparr>outcome = Returned False (Some err), target = Pointer pod', logged = out\<rparr>
            | (None, pod') \<Rightarrow>
                (case assertPod pod' of
                   None \<Rightarrow> \<lparr>outcome = Panicked, target = Pointer pod', logged = out\<rparr>
                 | Some p \<Rightarrow>
                     \<lparr>outcome = Returned (podConditionLoop conditionType conditionState
                                            (ps_Conditions (pod_Status p)) False) None,
                      target = Pointer pod', logged = out\<rparr>)))"

definition PodPhaseMatch :: "'a Condition \<Rightarrow> PodPhase \<Rightarrow> 'a ConditionFunc" where
  "PodPhaseMatch c phase pod0 =
     (case deref pod0 of
        None \<Rightarrow> nilDereference pod0
      | Some pod \<Rightarrow>
        (let out = log c ''Checking for Pod %v Condition of %s/%s''
                     [ArgString phase, ArgString (GetNamespace pod), ArgString (GetName pod)]
         in case Get (resources c) (GetName pod) (GetNamespace pod) pod of
              (Some err, pod') \<Rightarrow>
                \<lparr>outcome = Returned False (Some err), target = Pointer pod', logged = out\<rparr>
            | (None, pod') \<Rightarrow>
                (case assertPod pod' of
                   None \<Rightarrow> \<lparr>outcome = Panicked, target = Pointer pod', logged = out\<rparr>
                 | Some p \<Rightarrow>
                     \<lparr>outcome = Returned (Phase (pod_Status p) = phase) None,
                      target = Pointer pod', logged = out\<rparr>)))"

definition PodReady :: "'a Condition \<Rightarrow> 'a ConditionFunc" where
  "PodReady c pod = PodConditionMatch c PodReadyType ConditionTrue pod"

definition ContainersReady :: "'a Condition \<Rightarrow> 'a ConditionFunc" where
  "ContainersReady c pod = PodConditionMatch c ContainersReadyType ConditionTrue pod"

definition PodRunning :: "'a Condition \<Rightarrow> 'a ConditionFunc" where
  "PodRunning c pod = PodPhaseMatch c PodRunningPhase pod"

definition JobCompleted :: "'a Condition \<Rightarrow> 'a ConditionFunc" where
  "JobCompleted c job = JobConditionMatch c JobComplete ConditionTrue job"

definition JobFailed :: "'a Condition \<Rightarrow> 'a ConditionFunc" where
  "JobFailed c job = JobConditionMatch c JobFailedType ConditionTrue job"

text \<open>The fetch every predicate starts with: the error, and the struct afterwards.\<close>

abbreviation fetched :: "'a Condition \<Rightarrow> 'a Object \<Rightarrow> error option \<times> 'a Object" where
  "fetched c obj \<equiv> Get (resources c) (GetName obj) (GetNamespace obj) obj"

subsection \<open>Sample clusters\<close>

text \<open>
  Accessors used to run the predicates on concrete inputs: one whose every fetch fails
  with a given error and leaves the struct as it is, and one whose every fetch succeeds
  and writes a given pod or job state.
\<close>

definition failing :: "error \<Rightarrow> 'a Resources" where
  "failing e =
     \<lparr>GetPod = (\<lambda>name ns p. (Some e, p)),
      GetJob = (\<lambda>name ns j. (Some e, j)),
      GetOther = (\<lambda>name ns mb. (Some e, mb))\<rparr>"

definition serving :: "PodStatus \<Rightarrow> JobStatus \<Rightarrow> 'a \<Rightarrow> 'a Resources" where
  "serving ps js b =
     \<lparr>GetPod = (\<lambda>name ns p. (None, p\<lparr>pod_Status := ps\<rparr>)),
      GetJob = (\<lambda>name ns j. (None, j\<lparr>job_Status := js\<rparr>)),
      GetOther = (\<lambda>name ns mb. (None, (fst mb, b)))\<rparr>"

definition meta0 :: ObjectMeta where
  "meta0 = \<lparr>Name = ''web'', Namespace = ''default''\<rparr>"

definition pod0 :: Pod where
  "pod0 = \<lparr>pod_Meta = meta0, pod_Status = \<lparr>Phase = ''Pending'', ps_Conditions = []\<rparr>\<rparr>"

definition job0 :: Job where
  "job0 = \<lparr>job_Meta = meta0, job_Status = \<lparr>js_Conditions = []\<rparr>\<rparr>"

definition notFound :: error where
  "notFound = StatusError StatusReasonNotFound ''pods web not found''"

definition forbidden :: error where
  "forbidden = StatusError (StatusReasonOther ''Forbidden'') ''pods web is forbidden''"

definition running :: PodStatus where
  "running =
     \<lparr>Phase = ''Running'',
      ps_Conditions =
        [\<lparr>pc_Type = ''Initialized'', pc_Status = ''True'', pc_Reason = ''''\<rparr>,
         \<lparr>pc_Type = ''Ready'', pc_Status = ''True'', pc_Reason = ''''\<rparr>]\<rparr>"

definition completeAndFailed :: JobStatus where
  "completeAndFailed =
     \<lparr>js_Conditions =
        [\<lparr>jc_Type = ''Failed'', jc_Status = ''True'', jc_Reason = ''DeadlineExceeded''\<rparr>,
         \<lparr>jc_Type = ''Complete'', jc_Status = ''True'', jc_Reason = ''''\<rparr>]\<rparr>"

text \<open>A \<open>scaleFetcher\<close> for objects whose body is their replica count.\<close>

fun replicasOf :: "(32 word) Object \<Rightarrow> 32 word" where
  "replicasOf (OtherObject m b) = b"
| "replicasOf (PodObject p) = 0"
| "replicasOf (JobObject j) = 0"

text \<open>A scalable object that asks for one replica, and clusters that answer for it.\<close>

definition deploy1 :: "(32 word) Object" where
  "deploy1 = OtherObject meta0 1"

definition scaledTo3 :: "(32 word) Condition" where
  "scaledTo3 = New (serving running completeAndFailed 3)"

definition denying :: "(32 word) Condition" where
  "denying = New (failing forbidden)"

text \<open>
  A cluster where the pod runs and is ready and the job reports both terminal conditions,
  and one where the pod is pending and neither has any condition yet.
\<close>

definition settled :: "unit Condition" where
  "settled = New (serving running completeAndFailed ())"

definition starting :: "unit Condition" where
  "starting = New (serving (pod_Status pod0) (job_Status job0) ())"

section \<open>Properties\<close>

subsection \<open>What each predicate returns\<close>

text \<open>
  The loops compute an existential: \<open>done\<close> ends true exactly when it started true or
  some entry matches both the type and the status.
\<close>

lemma podConditionLoop_any:
  "podConditionLoop T S conds d \<longleftrightarrow>
     d \<or> (\<exists>cond\<in>set conds. pc_Type cond = T \<and> pc_Status cond = S)"
  by (induction conds arbitrary: d) auto

lemma jobConditionLoop_any:
  "jobConditionLoop T S conds d \<longleftrightarrow>
     d \<or> (\<exists>cond\<in>set conds. jc_Type cond = T \<and> jc_Status cond = S)"
  by (induction conds arbitrary: d) auto

text \<open>The outcome of each predicate on a pointer to a struct, by the result of its fetch.\<close>

lemma ResourceDeleted_outcome:
  "outcome (ResourceDeleted c (Pointer obj)) =
     (case fst (fetched c obj) of
        None \<Rightarrow> Returned False None
      | Some e \<Rightarrow> if IsNotFound e then Returned True None else Returned False (Some e))"
  by (cases "fetched c obj") (auto simp: ResourceDeleted_def Let_def split: option.splits)

lemma ResourceScaled_outcome:
  "outcome (ResourceScaled c f n (Pointer obj)) =
     (case fst (fetched c obj) of
        None \<Rightarrow> Returned (f (snd (fetched c obj)) = n) None
      | Some e \<Rightarrow> Returned False None)"
  by (cases "fetched c obj") (auto simp: ResourceScaled_def Let_def split: option.splits)

lemma JobConditionMatch_outcome:
  "outcome (JobConditionMatch c T S (Pointer obj)) =
     (case fst (fetched c obj) of
        Some e \<Rightarrow> Returned False (Some e)
      | None \<Rightarrow>
          (case assertJob (snd (fetched c obj)) of
             None \<Rightarrow> Panicked
           | Some j \<Rightarrow>
               Returned (\<exists>cond\<in>set (js_Conditions (job_Status j)).
                           jc_Type cond = T \<and> jc_Status cond = S) None))"
  by (cases "fetched c obj")
     (auto simp: JobConditionMatch_def Let_def jobConditionLoop_any split: option.splits)

lemma PodConditionMatch_outcome:
  "outcome (PodConditionMatch c T S (Pointer obj)) =
     (case fst (fetched c obj) of
        Some e \<Rightarrow> Returned False (Some e)
      | None \<Rightarrow>
          (case assertPod (snd (fetched c obj)) of
             None \<Rightarrow> Panicked
           | Some p \<Rightarrow>
               Returned (\<exists>cond\<in>set (ps_Conditions (pod_Status p)).
                           pc_Type cond = T \<and> pc_Status cond = S) None))"
  by (cases "fetched c obj")
     (auto simp: PodConditionMatch_def Let_def podConditionLoop_any split: option.splits)

lemma PodPhaseMatch_outcome:
  "outcome (PodPhaseMatch c ph (Pointer obj)) =
     (case fst (fetched c obj) of
        Some e \<Rightarrow> Returned False (Some e)
      | None \<Rightarrow>
          (case assertPod (snd (fetched c obj)) of
             None \<Rightarrow> Panicked
           | Some p \<Rightarrow> Returned (Phase (pod_Status p) = ph) None))"
  by (cases "fetched c obj")
     (auto simp: PodPhaseMatch_def Let_def split: option.splits)

text \<open>
  On a nil object every predicate panics at the first dereference: nothing is logged,
  even by a verbose builder, and nothing is fetched.
\<close>

lemma nil_panics:
  assumes "deref h = None"
  shows "ResourceScaled c f n h = nilDereference h"
    and "ResourceDeleted c h = nilDereference h"
    and "JobConditionMatch c jobType state h = nilDereference h"
    and "PodConditionMatch c podType state h = nilDereference h"
    and "PodPhaseMatch c phase h = nilDereference h"
  using assms
  by (simp_all add: ResourceScaled_def ResourceDeleted_def JobConditionMatch_def
        PodConditionMatch_def PodPhaseMatch_def)

text \<open>
  The polls of a verbose and of a silent builder are the same up to the log, and the log
  of the silent one is empty.
\<close>

lemma ResourceScaled_verbose:
  "(ResourceScaled (WithVerboseLog c) f n h)\<lparr>logged := []\<rparr> =
     ResourceScaled (c\<lparr>verbose := False\<rparr>) f n h"
  by (simp add: ResourceScaled_def nilDereference_def WithVerboseLog_def log_def
        split: prod.splits option.splits)

lemma ResourceDeleted_verbose:
  "(ResourceDeleted (WithVerboseLog c) h)\<lparr>logged := []\<rparr> =
     ResourceDeleted (c\<lparr>verbose := False\<rparr>) h"
  by (simp add: ResourceDeleted_def nilDereference_def WithVerboseLog_def log_def
        split: prod.splits option.splits)

lemma JobConditionMatch_verbose:
  "(JobConditionMatch (WithVerboseLog c) T S h)\<lparr>logged := []\<rparr> =
     JobConditionMatch (c\<lparr>verbose := False\<rparr>) T S h"
  by (simp add: JobConditionMatch_def nilDereference_def WithVerboseLog_def log_def
        split: prod.splits option.splits)

lemma PodConditionMatch_verbose:
  "(PodConditionMatch (WithVerboseLog c) T S h)\<lparr>logged := []\<rparr> =
     PodConditionMatch (c\<lparr>verbose := False\<rparr>) T S h"
  by (simp add: PodConditionMatch_def nilDereference_def WithVerboseLog_def log_def
        split: prod.splits option.splits)

lemma PodPhaseMatch_verbose:
  "(PodPhaseMatch (WithVerboseLog c) ph h)\<lparr>logged := []\<rparr> =
     PodPhaseMatch (c\<lparr>verbose := False\<rparr>) ph h"
  by (simp add: PodPhaseMatch_def nilDereference_def WithVerboseLog_def log_def
        split: prod.splits option.splits)

lemma outcome_up_to_log:
  "a\<lparr>logged := []\<rparr> = b \<Longrightarrow> outcome a = outcome b"
  by auto

subsection \<open>The claims\<close>

text \<open>
  C1. For every object, the predicate of \<open>ResourceDeleted\<close> returns \<open>(true, nil)\<close> when
  the fetch fails with a not-found error, returns \<open>(false, err)\<close> with the fetch error
  when the fetch fails with any other error, and returns \<open>(false, nil)\<close> when the fetch
  succeeds.
\<close>

theorem ResourceDeleted_result:
  "(fst (fetched c obj) = Some e \<and> IsNotFound e \<longrightarrow>
      outcome (ResourceDeleted c (Pointer obj)) = Returned True None) \<and>
   (fst (fetched c obj) = Some e \<and> \<not> IsNotFound e \<longrightarrow>
      outcome (ResourceDeleted c (Pointer obj)) = Returned False (Some e)) \<and>
   (fst (fetched c obj) = None \<longrightarrow>
      outcome (ResourceDeleted c (Pointer obj)) = Returned False None)"
  by (simp add: ResourceDeleted_outcome)

theorem ResourceDeleted_result_witness:
  "(fst (fetched (New (failing notFound)) (PodObject pod0 :: unit Object)) = Some notFound \<and>
    IsNotFound notFound \<and>
    outcome (ResourceDeleted (New (failing notFound)) (Pointer (PodObject pod0 :: unit Object)))
      = Returned True None) \<and>
   (fst (fetched (New (failing forbidden)) (JobObject job0 :: unit Object)) = Some forbidden \<and>
    \<not> IsNotFound forbidden \<and>
    outcome (ResourceDeleted (New (failing forbidden)) (Pointer (JobObject job0 :: unit Object)))
      = Returned False (Some forbidden)) \<and>
   (fst (fetched (New (serving running completeAndFailed ())) (PodObject pod0)) = None \<and>
    outcome (ResourceDeleted (New (serving running completeAndFailed ()))
               (Pointer (PodObject pod0)))
      = Returned False None)"
proof -
  have a: "fst (fetched (New (failing notFound)) (PodObject pod0 :: unit Object)) = Some notFound"
    by (simp add: New_def failing_def)
  have b: "IsNotFound notFound"
    by (simp add: notFound_def)
  have c: "fst (fetched (New (failing forbidden)) (JobObject job0 :: unit Object)) = Some forbidden"
    by (simp add: New_def failing_def)
  have d: "\<not> IsNotFound forbidden"
    by (simp add: forbidden_def)
  have e: "fst (fetched (New (serving running completeAndFailed ())) (PodObject pod0)) = None"
    by (simp add: New_def serving_def)
  from a b c d e
    ResourceDeleted_result [of "New (failing notFound)" "PodObject pod0 :: unit Object" notFound]
    ResourceDeleted_result [of "New (failing forbidden)" "JobObject job0 :: unit Object" forbidden]
    ResourceDeleted_result [of "New (serving running completeAndFailed ())" "PodObject pod0"]
  show ?thesis by blast
qed

text \<open>
  C2. For every object whose fetch succeeds, the predicate of
  \<open>ResourceScaled(obj, scaleFetcher, replica)\<close> returns \<open>(true, nil)\<close> if and only if
  \<open>scaleFetcher\<close> applied to the freshly fetched object equals \<open>replica\<close>, and returns
  \<open>(false, nil)\<close> for any other value of \<open>scaleFetcher\<close>.
\<close>

theorem ResourceScaled_result:
  "fetched c obj = (None, obj') \<Longrightarrow>
     (outcome (ResourceScaled c scaleFetcher replica (Pointer obj)) = Returned True None
        \<longleftrightarrow> scaleFetcher obj' = replica) \<and>
     (scaleFetcher obj' \<noteq> replica \<longrightarrow>
        outcome (ResourceScaled c scaleFetcher replica (Pointer obj)) = Returned False None)"
  by (simp add: ResourceScaled_outcome)

theorem ResourceScaled_result_witness:
  "fetched scaledTo3 deploy1 = (None, OtherObject meta0 3) \<and>
   replicasOf (OtherObject meta0 3) = 3 \<and>
   outcome (ResourceScaled scaledTo3 replicasOf 3 (Pointer deploy1)) = Returned True None \<and>
   replicasOf (OtherObject meta0 3) \<noteq> 5 \<and>
   outcome (ResourceScaled scaledTo3 replicasOf 5 (Pointer deploy1)) = Returned False None"
proof -
  have f: "fetched scaledTo3 deploy1 = (None, OtherObject meta0 3)"
    by (simp add: scaledTo3_def deploy1_def New_def serving_def)
  have n: "replicasOf (OtherObject meta0 3) \<noteq> 5"
    by simp
  from n ResourceScaled_result [OF f, of replicasOf 3] ResourceScaled_result [OF f, of replicasOf 5]
  show ?thesis using f by simp
qed

text \<open>
  C3. For every object and every fetch error, the predicate of \<open>ResourceScaled\<close>
  swallows the error and returns \<open>(false, nil)\<close>, whereas the predicates of
  \<open>JobConditionMatch\<close>, \<open>PodConditionMatch\<close> and \<open>PodPhaseMatch\<close> return
  \<open>(false, err)\<close> with that error.
\<close>

theorem fetch_error_policy:
  "fst (fetched c obj) = Some e \<Longrightarrow>
     outcome (ResourceScaled c scaleFetcher replica (Pointer obj)) = Returned False None \<and>
     outcome (JobConditionMatch c jobType state (Pointer obj)) = Returned False (Some e) \<and>
     outcome (PodConditionMatch c podType state (Pointer obj)) = Returned False (Some e) \<and>
     outcome (PodPhaseMatch c phase (Pointer obj)) = Returned False (Some e)"
  by (simp add: ResourceScaled_outcome JobConditionMatch_outcome PodConditionMatch_outcome
        PodPhaseMatch_outcome)

theorem fetch_error_policy_witness:
  "fst (fetched denying deploy1) = Some forbidden \<and>
   outcome (ResourceScaled denying replicasOf 1 (Pointer deploy1)) = Returned False None \<and>
   outcome (JobConditionMatch denying JobComplete ConditionTrue (Pointer deploy1))
     = Returned False (Some forbidden) \<and>
   outcome (PodConditionMatch denying PodReadyType ConditionTrue (Pointer deploy1))
     = Returned False (Some forbidden) \<and>
   outcome (PodPhaseMatch denying PodRunningPhase (Pointer deploy1))
     = Returned False (Some forbidden)"
proof -
  have f: "fst (fetched denying deploy1) = Some forbidden"
    by (simp add: denying_def deploy1_def New_def failing_def)
  from fetch_error_policy [OF f]
  show ?thesis using f by simp
qed

text \<open>
  C4. For every pod whose fetch succeeds, the predicate of \<open>PodConditionMatch(pod, T, S)\<close>
  returns \<open>done = true\<close> if and only if the fetched condition list of the pod has at least
  one entry whose type is \<open>T\<close> and whose status is \<open>S\<close>; an empty list gives
  \<open>(false, nil)\<close>. The same holds for \<open>JobConditionMatch\<close> over the condition list of
  the job.
\<close>

theorem condition_match_existential:
  "(fetched c (PodObject p) = (None, PodObject p') \<longrightarrow>
      outcome (PodConditionMatch c podType state (Pointer (PodObject p))) =
        Returned (\<exists>cond\<in>set (ps_Conditions (pod_Status p')).
                    pc_Type cond = podType \<and> pc_Status cond = state) None) \<and>
   (fetched c (PodObject p) = (None, PodObject p') \<and> ps_Conditions (pod_Status p') = [] \<longrightarrow>
      outcome (PodConditionMatch c podType state (Pointer (PodObject p))) = Returned False None) \<and>
   (fetched c (JobObject j) = (None, JobObject j') \<longrightarrow>
      outcome (JobConditionMatch c jobType state (Pointer (JobObject j))) =
        Returned (\<exists>cond\<in>set (js_Conditions (job_Status j')).
                    jc_Type cond = jobType \<and> jc_Status cond = state) None) \<and>
   (fetched c (JobObject j) = (None, JobObject j') \<and> js_Conditions (job_Status j') = [] \<longrightarrow>
      outcome (JobConditionMatch c jobType state (Pointer (JobObject j))) = Returned False None)"
proof (intro conjI impI)
  assume "fetched c (PodObject p) = (None, PodObject p')"
  then show "outcome (PodConditionMatch c podType state (Pointer (PodObject p))) =
        Returned (\<exists>cond\<in>set (ps_Conditions (pod_Status p')).
                    pc_Type cond = podType \<and> pc_Status cond = state) None"
    by (simp only: PodConditionMatch_outcome) simp
next
  assume "fetched c (PodObject p) = (None, PodObject p') \<and> ps_Conditions (pod_Status p') = []"
  then show "outcome (PodConditionMatch c podType state (Pointer (PodObject p)))
               = Returned False None"
    by (simp only: PodConditionMatch_outcome) simp
next
  assume "fetched c (JobObject j) = (None, JobObject j')"
  then show "outcome (JobConditionMatch c jobType state (Pointer (JobObject j))) =
        Returned (\<exists>cond\<in>set (js_Conditions (job_Status j')).
                    jc_Type cond = jobType \<and> jc_Status cond = state) None"
    by (simp only: JobConditionMatch_outcome) simp
next
  assume "fetched c (JobObject j) = (None, JobObject j') \<and> js_Conditions (job_Status j') = []"
  then show "outcome (JobConditionMatch c jobType state (Pointer (JobObject j)))
               = Returned False None"
    by (simp only: JobConditionMatch_outcome) simp
qed

theorem condition_match_existential_witness:
  "(fetched settled (PodObject pod0) = (None, PodObject (pod0\<lparr>pod_Status := running\<rparr>)) \<and>
    outcome (PodConditionMatch settled PodReadyType ConditionTrue (Pointer (PodObject pod0)))
      = Returned True None) \<and>
   (fetched starting (PodObject pod0) = (None, PodObject pod0) \<and>
    ps_Conditions (pod_Status pod0) = [] \<and>
    outcome (PodConditionMatch starting PodReadyType ConditionTrue (Pointer (PodObject pod0)))
      = Returned False None) \<and>
   (fetched settled (JobObject job0) = (None, JobObject (job0\<lparr>job_Status := completeAndFailed\<rparr>)) \<and>
    outcome (JobConditionMatch settled JobComplete ConditionTrue (Pointer (JobObject job0)))
      = Returned True None) \<and>
   (fetched starting (JobObject job0) = (None, JobObject job0) \<and>
    js_Conditions (job_Status job0) = [] \<and>
    outcome (JobConditionMatch starting JobComplete ConditionTrue (Pointer (JobObject job0)))
      = Returned False None)"
proof -
  have a: "fetched settled (PodObject pod0) = (None, PodObject (pod0\<lparr>pod_Status := running\<rparr>))"
    by (simp add: settled_def New_def serving_def)
  have b: "fetched starting (PodObject pod0) = (None, PodObject pod0)"
    by (simp add: starting_def New_def serving_def)
  have c: "ps_Conditions (pod_Status pod0) = []"
    by (simp add: pod0_def)
  have d: "fetched settled (JobObject job0) = (None, JobObject (job0\<lparr>job_Status := completeAndFailed\<rparr>))"
    by (simp add: settled_def New_def serving_def)
  have e: "fetched starting (JobObject job0) = (None, JobObject job0)"
    by (simp add: starting_def New_def serving_def)
  have f: "js_Conditions (job_Status job0) = []"
    by (simp add: job0_def)
  have g: "\<exists>cond\<in>set (ps_Conditions (pod_Status (pod0\<lparr>pod_Status := running\<rparr>))).
             pc_Type cond = PodReadyType \<and> pc_Status cond = ConditionTrue"
    by (simp add: running_def PodReadyType_def ConditionTrue_def)
  have h: "\<exists>cond\<in>set (js_Conditions (job_Status (job0\<lparr>job_Status := completeAndFailed\<rparr>))).
             jc_Type cond = JobComplete \<and> jc_Status cond = ConditionTrue"
    by (simp add: completeAndFailed_def JobComplete_def ConditionTrue_def)
  from
    condition_match_existential [of settled pod0 "pod0\<lparr>pod_Status := running\<rparr>" PodReadyType
      ConditionTrue job0 "job0\<lparr>job_Status := completeAndFailed\<rparr>" JobComplete]
    condition_match_existential [of starting pod0 pod0 PodReadyType
      ConditionTrue job0 job0 JobComplete]
    a b c d e f g h
  show ?thesis by simp
qed

text \<open>
  C5. For every pod whose fetch succeeds, the predicate of \<open>PodPhaseMatch(pod, phase)\<close>
  returns \<open>done = true\<close> if and only if the phase of the pod, as written by the fetch,
  equals \<open>phase\<close>; otherwise it returns \<open>(false, nil)\<close>.
\<close>

theorem PodPhaseMatch_result:
  "fetched c (PodObject p) = (None, PodObject p') \<Longrightarrow>
     outcome (PodPhaseMatch c phase (Pointer (PodObject p)))
       = Returned (Phase (pod_Status p') = phase) None"
  by (simp only: PodPhaseMatch_outcome) simp

theorem PodPhaseMatch_result_witness:
  "(fetched starting (PodObject pod0) = (None, PodObject pod0) \<and>
    Phase (pod_Status pod0) \<noteq> PodRunningPhase \<and>
    outcome (PodPhaseMatch starting PodRunningPhase (Pointer (PodObject pod0)))
      = Returned False None) \<and>
   (fetched settled (PodObject pod0) = (None, PodObject (pod0\<lparr>pod_Status := running\<rparr>)) \<and>
    Phase (pod_Status (pod0\<lparr>pod_Status := running\<rparr>)) = PodRunningPhase \<and>
    outcome (PodPhaseMatch settled PodRunningPhase (Pointer (PodObject pod0)))
      = Returned True None)"
proof -
  have a: "fetched starting (PodObject pod0) = (None, PodObject pod0)"
    by (simp add: starting_def New_def serving_def)
  have b: "fetched settled (PodObject pod0) = (None, PodObject (pod0\<lparr>pod_Status := running\<rparr>))"
    by (simp add: settled_def New_def serving_def)
  have c: "Phase (pod_Status pod0) \<noteq> PodRunningPhase"
    by (simp add: pod0_def PodRunningPhase_def)
  have d: "Phase (pod_Status (pod0\<lparr>pod_Status := running\<rparr>)) = PodRunningPhase"
    by (simp add: running_def PodRunningPhase_def)
  from PodPhaseMatch_result [OF a, of PodRunningPhase] PodPhaseMatch_result [OF b, of PodRunningPhase]
    a b c d
  show ?thesis by simp
qed

text \<open>
  C6. The derived predicates are the general factories at fixed arguments: \<open>PodReady\<close> is
  \<open>PodConditionMatch\<close> at (Ready, True), \<open>ContainersReady\<close> is \<open>PodConditionMatch\<close> at
  (ContainersReady, True), \<open>PodRunning\<close> is \<open>PodPhaseMatch\<close> at Running, \<open>JobCompleted\<close>
  is \<open>JobConditionMatch\<close> at (Complete, True) and \<open>JobFailed\<close> is \<open>JobConditionMatch\<close>
  at (Failed, True), as functions of the object.
\<close>

theorem derived_predicates:
  "PodReady c = PodConditionMatch c PodReadyType ConditionTrue \<and>
   ContainersReady c = PodConditionMatch c ContainersReadyType ConditionTrue \<and>
   PodRunning c = PodPhaseMatch c PodRunningPhase \<and>
   JobCompleted c = JobConditionMatch c JobComplete ConditionTrue \<and>
   JobFailed c = JobConditionMatch c JobFailedType ConditionTrue \<and>
   PodReadyType = ''Ready'' \<and> ContainersReadyType = ''ContainersReady'' \<and>
   PodRunningPhase = ''Running'' \<and> JobComplete = ''Complete'' \<and> JobFailedType = ''Failed'' \<and>
   ConditionTrue = ''True''"
  by (simp add: fun_eq_iff PodReady_def ContainersReady_def PodRunning_def JobCompleted_def
        JobFailed_def PodReadyType_def ContainersReadyType_def PodRunningPhase_def
        JobComplete_def JobFailedType_def ConditionTrue_def)

text \<open>
  C7. No predicate of any factory, general or derived, returns \<open>(true, err)\<close> with a
  non-nil error, on any object, nil or not: whenever the returned error is non-nil,
  \<open>done\<close> is false.
\<close>

theorem no_done_with_error:
  "outcome (ResourceScaled c scaleFetcher replica h) \<noteq> Returned True (Some e) \<and>
   outcome (ResourceDeleted c h) \<noteq> Returned True (Some e) \<and>
   outcome (JobConditionMatch c jobType state h) \<noteq> Returned True (Some e) \<and>
   outcome (PodConditionMatch c podType state h) \<noteq> Returned True (Some e) \<and>
   outcome (PodPhaseMatch c phase h) \<noteq> Returned True (Some e) \<and>
   outcome (PodReady c h) \<noteq> Returned True (Some e) \<and>
   outcome (ContainersReady c h) \<noteq> Returned True (Some e) \<and>
   outcome (PodRunning c h) \<noteq> Returned True (Some e) \<and>
   outcome (JobCompleted c h) \<noteq> Returned True (Some e) \<and>
   outcome (JobFailed c h) \<noteq> Returned True (Some e)"
proof (cases "deref h")
  case None
  then show ?thesis
    by (simp add: PodReady_def ContainersReady_def PodRunning_def JobCompleted_def JobFailed_def
          nil_panics nilDereference_def)
next
  case (Some obj)
  then have "h = Pointer obj"
    by (cases h) simp_all
  then show ?thesis
    by (simp add: PodReady_def ContainersReady_def PodRunning_def JobCompleted_def JobFailed_def
          ResourceScaled_outcome ResourceDeleted_outcome JobConditionMatch_outcome
          PodConditionMatch_outcome PodPhaseMatch_outcome split: option.splits)
qed




text \<open>
  C9. For every job whose fetch succeeds, \<open>JobConditionMatch(job, Complete, True)\<close> and
  \<open>JobConditionMatch(job, Failed, True)\<close> both return \<open>done = true\<close> on the same
  fetched state if and only if the fetched condition list holds both an entry
  (Complete, True) and an entry (Failed, True).
\<close>

theorem complete_and_failed_together:
  "fetched c (JobObject j) = (None, JobObject j') \<Longrightarrow>
     ((\<exists>e. outcome (JobConditionMatch c JobComplete ConditionTrue (Pointer (JobObject j)))
             = Returned True e) \<and>
      (\<exists>e. outcome (JobConditionMatch c JobFailedType ConditionTrue (Pointer (JobObject j)))
             = Returned True e))
     \<longleftrightarrow>
     ((\<exists>cond\<in>set (js_Conditions (job_Status j')).
          jc_Type cond = JobComplete \<and> jc_Status cond = ConditionTrue) \<and>
      (\<exists>cond\<in>set (js_Conditions (job_Status j')).
          jc_Type cond = JobFailedType \<and> jc_Status cond = ConditionTrue))"
  by (simp only: JobConditionMatch_outcome) simp

theorem complete_and_failed_together_witness:
  "fetched settled (JobObject job0) = (None, JobObject (job0\<lparr>job_Status := completeAndFailed\<rparr>)) \<and>
   outcome (JobConditionMatch settled JobComplete ConditionTrue (Pointer (JobObject job0)))
     = Returned True None \<and>
   outcome (JobConditionMatch settled JobFailedType ConditionTrue (Pointer (JobObject job0)))
     = Returned True None"
proof -
  have f: "fetched settled (JobObject job0) = (None, JobObject (job0\<lparr>job_Status := completeAndFailed\<rparr>))"
    by (simp add: settled_def New_def serving_def)
  have g: "(\<exists>cond\<in>set (js_Conditions (job_Status (job0\<lparr>job_Status := completeAndFailed\<rparr>))).
              jc_Type cond = JobComplete \<and> jc_Status cond = ConditionTrue) \<and>
           (\<exists>cond\<in>set (js_Conditions (job_Status (job0\<lparr>job_Status := completeAndFailed\<rparr>))).
              jc_Type cond = JobFailedType \<and> jc_Status cond = ConditionTrue)"
    by (simp add: completeAndFailed_def JobComplete_def JobFailedType_def ConditionTrue_def)
  have n: "\<And>e. outcome (JobConditionMatch settled T S (Pointer (JobObject job0))) = Returned True e
             \<Longrightarrow> e = None" for T S
    by (simp add: JobConditionMatch_outcome split: option.splits)
  from complete_and_failed_together [OF f] g
  have "(\<exists>e. outcome (JobConditionMatch settled JobComplete ConditionTrue (Pointer (JobObject job0)))
               = Returned True e) \<and>
        (\<exists>e. outcome (JobConditionMatch settled JobFailedType ConditionTrue (Pointer (JobObject job0)))
               = Returned True e)"
    by blast
  with n f show ?thesis by blast
qed

text \<open>
  C10. The verbose flag does not interfere with the results: for every factory and every
  input, nil or not, the predicate built from a builder made verbose by \<open>WithVerboseLog\<close>
  returns the same \<open>(done, err)\<close>, or panics alike, as the one built from the builder with
  verbose disabled. The two calls leave the object in the same state and differ only in
  the log, which is empty when verbose is disabled.
\<close>

theorem verbose_non_interference:
  "outcome (ResourceScaled (WithVerboseLog c) scaleFetcher replica h) =
     outcome (ResourceScaled (c\<lparr>verbose := False\<rparr>) scaleFetcher replica h) \<and>
   outcome (ResourceDeleted (WithVerboseLog c) h) =
     outcome (ResourceDeleted (c\<lparr>verbose := False\<rparr>) h) \<and>
   outcome (JobConditionMatch (WithVerboseLog c) jobType state h) =
     outcome (JobConditionMatch (c\<lparr>verbose := False\<rparr>) jobType state h) \<and>
   outcome (PodConditionMatch (WithVerboseLog c) podType state h) =
     outcome (PodConditionMatch (c\<lparr>verbose := False\<rparr>) podType state h) \<and>
   outcome (PodPhaseMatch (WithVerboseLog c) phase h) =
     outcome (PodPhaseMatch (c\<lparr>verbose := False\<rparr>) phase h) \<and>
   outcome (PodReady (WithVerboseLog c) h) = outcome (PodReady (c\<lparr>verbose := False\<rparr>) h) \<and>
   outcome (ContainersReady (WithVerboseLog c) h) =
     outcome (ContainersReady (c\<lparr>verbose := False\<rparr>) h) \<and>
   outcome (PodRunning (WithVerboseLog c) h) = outcome (PodRunning (c\<lparr>verbose := False\<rparr>) h) \<and>
   outcome (JobCompleted (WithVerboseLog c) h) =
     outcome (JobCompleted (c\<lparr>verbose := False\<rparr>) h) \<and>
   outcome (JobFailed (WithVerboseLog c) h) = outcome (JobFailed (c\<lparr>verbose := False\<rparr>) h) \<and>
   (ResourceScaled (WithVerboseLog c) scaleFetcher replica h)\<lparr>logged := []\<rparr> =
     ResourceScaled (c\<lparr>verbose := False\<rparr>) scaleFetcher replica h \<and>
   (ResourceDeleted (WithVerboseLog c) h)\<lparr>logged := []\<rparr> =
     ResourceDeleted (c\<lparr>verbose := False\<rparr>) h \<and>
   (JobConditionMatch (WithVerboseLog c) jobType state h)\<lparr>logged := []\<rparr> =
     JobConditionMatch (c\<lparr>verbose := False\<rparr>) jobType state h \<and>
   (PodConditionMatch (WithVerboseLog c) podType state h)\<lparr>logged := []\<rparr> =
     PodConditionMatch (c\<lparr>verbose := False\<rparr>) podType state h \<and>
   (PodPhaseMatch (WithVerboseLog c) phase h)\<lparr>logged := []\<rparr> =
     PodPhaseMatch (c\<lparr>verbose := False\<rparr>) phase h"
  by (simp add: PodReady_def ContainersReady_def PodRunning_def JobCompleted_def JobFailed_def
        ResourceScaled_verbose ResourceDeleted_verbose JobConditionMatch_verbose
        PodConditionMatch_verbose PodPhaseMatch_verbose
        outcome_up_to_log [OF ResourceScaled_verbose] outcome_up_to_log [OF ResourceDeleted_verbose]
        outcome_up_to_log [OF JobConditionMatch_verbose]
        outcome_up_to_log [OF PodConditionMatch_verbose]
        outcome_up_to_log [OF PodPhaseMatch_verbose])

end
